theory Spec2Isabelle
  imports Complex_Main "HOL-Library.FSet" "HOL-Library.AList" "HOL-Library.Multiset"
    "HOL-Library.Product_Lexorder"
begin

section \<open>Campus registrar: data model\<close>

text \<open>
  The program (\<^verbatim>\<open>assignment.py\<close>) keeps three module-level collections:
  \<^verbatim>\<open>students\<close> (a dict from integer ids to dicts), \<^verbatim>\<open>courses\<close> (a dict from course
  codes to dicts) and \<^verbatim>\<open>enrollments\<close> (a list of dicts). Python dicts keep insertion
  order, which the analytics depend on, so a dict is an association list with distinct
  keys; \<^verbatim>\<open>d[k] = v\<close> is \<^const>\<open>AList.update\<close> (replace in place, or append a new key).

  Arithmetic on Python floats (grades, their mean, the fill rate) is idealised as
  arithmetic on reals: no rounding, no NaN, no infinities. A GPA is never computed with,
  only read, stored and compared by \<^verbatim>\<open>sorted\<close>; \<^verbatim>\<open>float\<close> also reads \<^verbatim>\<open>"nan"\<close> and
  \<^verbatim>\<open>"inf"\<close>, which no number compares like, so a GPA is a \<open>pyfloat\<close>: NaN, an
  infinity, or a number (idealised as a real).

  An unhandled Python exception ends the process; it is a value of type \<open>exn\<close> on the
  left of a sum, and the in-memory collections are lost with it. A message the program
  prints before returning normally is a result on the right.
\<close>

datatype exn =
  KeyError | ZeroDivisionError | AttributeError | TypeError
  | UnicodeDecodeError | CsvError | OSError

text \<open>
  Python's \<^verbatim>\<open><\<close> on floats: false whenever one side is NaN; otherwise the order of the
  extended reals, which \<open>rank\<close> embeds in the lexicographic order of pairs (the rank
  of NaN is never compared).
\<close>

datatype pyfloat = NaN | NegInf | Num real | PosInf




record student =
  name :: "string option"
  year :: int
  gpa :: pyfloat

text \<open>
  The value under a course's \<^verbatim>\<open>"enrolled"\<close> key is a Python set when the course was
  made by \<^verbatim>\<open>add_course\<close>, and a Python list while \<^verbatim>\<open>save_courses\<close> encodes it or
  after \<^verbatim>\<open>json.load\<close> has read it back.
\<close>

datatype enrolled_obj = ESet "int fset" | EList "int list"

record course =
  title :: string
  credits :: int
  capacity :: int
  prereqs :: "string list"
  enrolled :: enrolled_obj

record enrollment =
  student_id :: int
  course_code :: string
  grade :: "real option"

record state =
  students :: "(int \<times> student) list"
  courses :: "(string \<times> course) list"
  enrollments :: "enrollment list"

definition initial_state :: state where
  "initial_state = \<lparr>students = [], courses = [], enrollments = []\<rparr>"

text \<open>\<^verbatim>\<open>len(c["enrolled"])\<close>, on a set or on a list.\<close>

fun len_enrolled :: "enrolled_obj \<Rightarrow> nat" where
  "len_enrolled (ESet S) = fcard S"
| "len_enrolled (EList xs) = length xs"

text \<open>The student ids an \<^verbatim>\<open>"enrolled"\<close> value holds, whatever its Python type.\<close>

fun members :: "enrolled_obj \<Rightarrow> int fset" where
  "members (ESet S) = S"
| "members (EList xs) = fset_of_list xs"

text \<open>\<^verbatim>\<open>course["enrolled"].add(sid)\<close>: a list has no method \<^verbatim>\<open>add\<close>.\<close>

fun enrolled_add :: "int \<Rightarrow> enrolled_obj \<Rightarrow> exn + enrolled_obj" where
  "enrolled_add sid (ESet S) = Inr (ESet (finsert sid S))"
| "enrolled_add sid (EList xs) = Inl AttributeError"

section \<open>Registrar operations\<close>

text \<open>
  What an operation reports when it returns normally; the program prints one line for
  each rejection: \<open>AlreadyExists\<close> is "Student already exists." or "Course already
  exists.", \<open>NotFound\<close> is "Invalid student or course.", "Enrollment not found." or
  "Student not found.", \<open>CourseFull\<close> is "Course full.", \<open>AlreadyEnrolled\<close> is
  "Already enrolled." and \<open>MissingPrerequisite\<close> is "Missing prerequisite.".
\<close>

datatype outcome =
  Done | AlreadyExists | NotFound | CourseFull | AlreadyEnrolled | MissingPrerequisite

definition add_student :: "int \<Rightarrow> string \<Rightarrow> int \<Rightarrow> pyfloat \<Rightarrow> state \<Rightarrow> outcome \<times> state" where
  "add_student sid nm yr g s =
     (if sid \<in> fst ` set (students s) then (AlreadyExists, s)
      else (Done, s\<lparr>students :=
              AList.update sid \<lparr>name = Some nm, year = yr, gpa = g\<rparr> (students s)\<rparr>))"

definition add_course ::
  "string \<Rightarrow> string \<Rightarrow> int \<Rightarrow> int \<Rightarrow> string list \<Rightarrow> state \<Rightarrow> outcome \<times> state" where
  "add_course code ttl cr cap pre s =
     (if code \<in> fst ` set (courses s) then (AlreadyExists, s)
      else (Done, s\<lparr>courses :=
              AList.update code
                \<lparr>title = ttl, credits = cr, capacity = cap, prereqs = pre, enrolled = ESet {||}\<rparr>
                (courses s)\<rparr>))"

text \<open>
  The prerequisite loop of \<^verbatim>\<open>enroll_student\<close>: the first prerequisite code for which
  every row of the student has another course code ends the loop with a rejection.
\<close>

fun missing_prereq :: "int \<Rightarrow> enrollment list \<Rightarrow> string list \<Rightarrow> bool" where
  "missing_prereq sid es [] = False"
| "missing_prereq sid es (pre # pres) =
     (if list_all (\<lambda>e. course_code e \<noteq> pre) (filter (\<lambda>e. student_id e = sid) es)
      then True else missing_prereq sid es pres)"

text \<open>
  \<^verbatim>\<open>enroll_student\<close>, lines 146 to 166. The row is appended before
  \<^verbatim>\<open>course["enrolled"].add(sid)\<close> runs; when that call raises, the process ends.
\<close>

definition enroll_student :: "int \<Rightarrow> string \<Rightarrow> state \<Rightarrow> exn + (outcome \<times> state)" where
  "enroll_student sid code s =
     (if sid \<notin> fst ` set (students s) \<or> code \<notin> fst ` set (courses s)
      then Inr (NotFound, s)
      else case map_of (courses s) code of
        None \<Rightarrow> Inl KeyError
      | Some c \<Rightarrow>
          if capacity c \<le> int (len_enrolled (enrolled c)) then Inr (CourseFull, s)
          else if (sid, code) \<in> set (map (\<lambda>e. (student_id e, course_code e)) (enrollments s))
          then Inr (AlreadyEnrolled, s)
          else if missing_prereq sid (enrollments s) (prereqs c)
          then Inr (MissingPrerequisite, s)
          else
            (let es = enrollments s @ [\<lparr>student_id = sid, course_code = code, grade = None\<rparr>]
             in case enrolled_add sid (enrolled c) of
                  Inl x \<Rightarrow> Inl x
                | Inr en \<Rightarrow>
                    Inr (Done,
                         s\<lparr>enrollments := es,
                           courses := AList.update code (c\<lparr>enrolled := en\<rparr>) (courses s)\<rparr>)))"

text \<open>A sequence of \<^verbatim>\<open>enroll_student\<close> calls; an exception ends the run.\<close>

fun enroll_all :: "(int \<times> string) list \<Rightarrow> state \<Rightarrow> exn + state" where
  "enroll_all [] s = Inr s"
| "enroll_all ((sid, code) # rest) s =
     (case enroll_student sid code s of
        Inl x \<Rightarrow> Inl x
      | Inr (m, s') \<Rightarrow> enroll_all rest s')"

text \<open>
  \<^verbatim>\<open>record_grade\<close>, lines 168 to 176: the loop stops at the first row of the pair and
  overwrites its grade.
\<close>

fun record_grade_rows :: "int \<Rightarrow> string \<Rightarrow> real \<Rightarrow> enrollment list \<Rightarrow> enrollment list option" where
  "record_grade_rows sid code g [] = None"
| "record_grade_rows sid code g (e # es) =
     (if student_id e = sid \<and> course_code e = code then Some (e\<lparr>grade := Some g\<rparr> # es)
      else map_option ((#) e) (record_grade_rows sid code g es))"

definition record_grade :: "int \<Rightarrow> string \<Rightarrow> real \<Rightarrow> state \<Rightarrow> outcome \<times> state" where
  "record_grade sid code g s =
     (case record_grade_rows sid code g (enrollments s) of
        None \<Rightarrow> (NotFound, s)
      | Some es \<Rightarrow> (Done, s\<lparr>enrollments := es\<rparr>))"

text \<open>
  \<^verbatim>\<open>transcript\<close>, lines 178 to 196. The loop carries the printed lines (course code,
  course title, grade), \<^verbatim>\<open>total_points\<close> and \<^verbatim>\<open>total_credits\<close>;
  \<^verbatim>\<open>courses[code]\<close> raises \<^verbatim>\<open>KeyError\<close> for a code that is not a key.
\<close>

type_synonym transcript_line = "string \<times> string \<times> real option"

fun transcript_loop ::
  "(string \<times> course) list \<Rightarrow> int \<Rightarrow> enrollment list \<Rightarrow>
   transcript_line list \<times> real \<times> nat \<Rightarrow> exn + (transcript_line list \<times> real \<times> nat)" where
  "transcript_loop cs sid [] acc = Inr acc"
| "transcript_loop cs sid (e # es) (ls, total_points, total_credits) =
     (if student_id e = sid then
        (case map_of cs (course_code e) of
           None \<Rightarrow> Inl KeyError
         | Some c \<Rightarrow>
             (case grade e of
                None \<Rightarrow>
                  transcript_loop cs sid es
                    (ls @ [(course_code e, title c, None)], total_points, total_credits)
              | Some g \<Rightarrow>
                  transcript_loop cs sid es
                    (ls @ [(course_code e, title c, Some g)], total_points + g,
                     total_credits + 1)))
      else transcript_loop cs sid es (ls, total_points, total_credits))"

definition transcript ::
  "int \<Rightarrow> state \<Rightarrow> exn + (outcome \<times> transcript_line list \<times> real option)" where
  "transcript sid s =
     (if sid \<notin> fst ` set (students s) then Inr (NotFound, [], None)
      else case transcript_loop (courses s) sid (enrollments s) ([], 0, 0) of
        Inl x \<Rightarrow> Inl x
      | Inr (ls, total_points, total_credits) \<Rightarrow>
          Inr (Done, ls,
               if 0 < total_credits then Some (total_points / real total_credits) else None))"

subsection \<open>Analytics\<close>






text \<open>
  Choice 2 of \<^verbatim>\<open>analytics\<close>: one line per course, in dict order, with the fill
  percentage and whether the warning is printed. The division raises for capacity 0,
  which ends the loop and the process.
\<close>

definition fill_rate :: "course \<Rightarrow> exn + (real \<times> bool)" where
  "fill_rate c =
     (if capacity c = 0 then Inl ZeroDivisionError
      else (let fill = real (len_enrolled (enrolled c)) / real_of_int (capacity c) * 100
            in Inr (fill, 90 < fill)))"

fun fill_rates :: "(string \<times> course) list \<Rightarrow> exn + (string \<times> real \<times> bool) list" where
  "fill_rates [] = Inr []"
| "fill_rates ((code, c) # cs) =
     (case fill_rate c of
        Inl x \<Rightarrow> Inl x
      | Inr r \<Rightarrow> (case fill_rates cs of Inl x \<Rightarrow> Inl x | Inr rs \<Rightarrow> Inr ((code, r) # rs)))"

section \<open>Files\<close>

subsection \<open>The courses file\<close>

text \<open>
  \<^verbatim>\<open>json.load\<close> returns plain Python objects, with no check of their shape, so what
  \<^verbatim>\<open>load_courses\<close> leaves in \<^verbatim>\<open>courses\<close> is a Python value of any JSON shape.
  A JSON document is the Python value \<^verbatim>\<open>json.load\<close> makes of it: an object is a dict,
  an array a list. A set is not a JSON value: \<^verbatim>\<open>json.dump\<close> raises \<^verbatim>\<open>TypeError\<close>
  when it meets one.
\<close>

datatype pyval =
  PNone | PBool bool | PInt int | PFloat pyfloat | PStr string
  | PList "pyval list" | PDict "(string \<times> pyval) list" | PSet "int fset"

text \<open>
  The courses file is absent (\<open>NoJson\<close>), or \<^verbatim>\<open>open\<close> or \<^verbatim>\<open>json.load\<close> raises on
  it (\<open>BadJson\<close>: the text is not JSON, or the file cannot be opened or decoded), or it
  holds a JSON document.
\<close>

datatype json_file = NoJson | BadJson | Json pyval

fun serialisable :: "pyval \<Rightarrow> bool" where
  "serialisable (PSet S) = False"
| "serialisable (PList vs) = (\<forall>v \<in> set vs. serialisable v)"
| "serialisable (PDict kvs) = (\<forall>v \<in> set (map snd kvs). serialisable v)"
| "serialisable v = True"

definition json_dump :: "pyval \<Rightarrow> exn + pyval" where
  "json_dump v = (if serialisable v then Inr v else Inl TypeError)"

text \<open>
  The registrar operations are modelled on course dicts of the shape \<^verbatim>\<open>add_course\<close>
  builds, the record \<open>course\<close>. \<open>encode_courses\<close> is the Python value of such a
  \<^verbatim>\<open>courses\<close> dict, with the keys in the order \<^verbatim>\<open>add_course\<close> lays them out, so that
  what \<^verbatim>\<open>load_courses\<close> leaves in memory can be compared with it.
\<close>

fun encode_enrolled :: "enrolled_obj \<Rightarrow> pyval" where
  "encode_enrolled (ESet S) = PSet S"
| "encode_enrolled (EList xs) = PList (map PInt xs)"

definition encode_course :: "course \<Rightarrow> pyval" where
  "encode_course c =
     PDict [(''title'', PStr (title c)), (''credits'', PInt (credits c)),
            (''capacity'', PInt (capacity c)), (''prereqs'', PList (map PStr (prereqs c))),
            (''enrolled'', encode_enrolled (enrolled c))]"

definition encode_courses :: "(string \<times> course) list \<Rightarrow> pyval" where
  "encode_courses cs = PDict (map (\<lambda>(code, c). (code, encode_course c)) cs)"

text \<open>
  \<^verbatim>\<open>save_courses\<close>, lines 88 to 96. \<^verbatim>\<open>list(s)\<close> enumerates a set in its iteration
  order, which Python does not specify: the order is the parameter \<open>order\<close>.
  The result is the document written and the course dict as the function leaves it.
\<close>

fun as_list :: "(int fset \<Rightarrow> int list) \<Rightarrow> enrolled_obj \<Rightarrow> enrolled_obj" where
  "as_list order (ESet S) = EList (order S)"
| "as_list order (EList xs) = EList xs"

fun as_set :: "enrolled_obj \<Rightarrow> enrolled_obj" where
  "as_set (EList xs) = ESet (fset_of_list xs)"
| "as_set (ESet S) = ESet S"

definition save_courses ::
  "(int fset \<Rightarrow> int list) \<Rightarrow> (string \<times> course) list \<Rightarrow>
   exn + (pyval \<times> (string \<times> course) list)" where
  "save_courses order cs =
     (let cs1 = map (\<lambda>(code, c). (code, c\<lparr>enrolled := as_list order (enrolled c)\<rparr>)) cs
      in case json_dump (encode_courses cs1) of
           Inl x \<Rightarrow> Inl x
         | Inr doc \<Rightarrow>
             Inr (doc, map (\<lambda>(code, c). (code, c\<lparr>enrolled := as_set (enrolled c)\<rparr>)) cs1))"

text \<open>
  \<^verbatim>\<open>load_courses\<close>, lines 43 to 53. \<^verbatim>\<open>courses = json.load(f)\<close> assigns the global
  before the loop runs; \<^verbatim>\<open>c.setdefault\<close> raises \<^verbatim>\<open>AttributeError\<close> on a value that
  is not a dict, and \<^verbatim>\<open>courses.values()\<close> raises it when the document is not an
  object. \<^verbatim>\<open>except Exception: pass\<close> ends the function there, with \<^verbatim>\<open>courses\<close> as
  the loop left it.
\<close>

definition setdefault :: "string \<Rightarrow> pyval \<Rightarrow> (string \<times> pyval) list \<Rightarrow> (string \<times> pyval) list" where
  "setdefault k v d = (if k \<in> fst ` set d then d else d @ [(k, v)])"

fun setdefault_enrolled :: "(string \<times> pyval) list \<Rightarrow> (string \<times> pyval) list" where
  "setdefault_enrolled [] = []"
| "setdefault_enrolled ((code, PDict d) # rest) =
     (code, PDict (setdefault ''enrolled'' (PSet {||}) d)) # setdefault_enrolled rest"
| "setdefault_enrolled ((code, v) # rest) = (code, v) # rest"

fun load_courses :: "json_file \<Rightarrow> pyval \<Rightarrow> pyval" where
  "load_courses NoJson cur = cur"
| "load_courses BadJson cur = cur"
| "load_courses (Json (PDict kvs)) cur = PDict (setdefault_enrolled kvs)"
| "load_courses (Json v) cur = v"

text \<open>
  Whether an exception reaches the \<^verbatim>\<open>except\<close> clause of \<^verbatim>\<open>load_courses\<close>: the text
  is not JSON, the document is not an object, or a member of it is not an object.
\<close>

fun is_dict :: "pyval \<Rightarrow> bool" where
  "is_dict (PDict d) = True"
| "is_dict v = False"

fun load_courses_raises :: "json_file \<Rightarrow> bool" where
  "load_courses_raises NoJson = False"
| "load_courses_raises BadJson = True"
| "load_courses_raises (Json (PDict kvs)) = (\<not> list_all (\<lambda>kv. is_dict (snd kv)) kvs)"
| "load_courses_raises (Json v) = True"

subsection \<open>The students file\<close>

text \<open>
  \<^verbatim>\<open>csv.DictReader\<close> yields one dict per data row, from column names to cells; a row
  shorter than the header has \<^verbatim>\<open>None\<close> for the cells it lacks. \<^verbatim>\<open>row[k]\<close> raises
  \<^verbatim>\<open>KeyError\<close> when the header has no column \<^verbatim>\<open>k\<close>. The conversions \<^verbatim>\<open>int\<close> and
  \<^verbatim>\<open>float\<close> of the Python library are the parameters \<open>int_of\<close> and \<open>float_of\<close>
  (\<open>None\<close> when they raise \<^verbatim>\<open>ValueError\<close>); on the cell \<^verbatim>\<open>None\<close> both raise
  \<^verbatim>\<open>TypeError\<close>.

  A students file is absent (\<open>NoCsv\<close>, also when \<^verbatim>\<open>open\<close> raises
  \<^verbatim>\<open>FileNotFoundError\<close>: the outer \<^verbatim>\<open>except\<close> catches it), or it is read to its
  end (\<open>Csv\<close>, with the rows the reader yields), or reading it fails
  (\<open>CsvBroken\<close>, with the rows the reader yields before it, or \<^verbatim>\<open>open\<close>, raises):
  the reader raises \<^verbatim>\<open>UnicodeDecodeError\<close> or \<^verbatim>\<open>csv.Error\<close> from the \<^verbatim>\<open>for\<close>
  statement, outside the inner \<^verbatim>\<open>try\<close>, and \<^verbatim>\<open>open\<close> raises an \<^verbatim>\<open>OSError\<close> such
  as \<^verbatim>\<open>PermissionError\<close>; the outer \<^verbatim>\<open>except\<close> catches none of these, and the
  process ends.
\<close>

type_synonym csv_row = "(string \<times> string option) list"

datatype csv_file = NoCsv | Csv "csv_row list" | CsvBroken "csv_row list" exn

definition convert :: "(string \<Rightarrow> 'a option) \<Rightarrow> csv_row \<Rightarrow> string \<Rightarrow> 'a option" where
  "convert conv row k =
     (case map_of row k of None \<Rightarrow> None | Some None \<Rightarrow> None | Some (Some txt) \<Rightarrow> conv txt)"

text \<open>
  The body of the inner \<^verbatim>\<open>try\<close> of \<^verbatim>\<open>load_students\<close>: \<open>None\<close> when any step
  raises, and the row is then skipped.
\<close>

definition student_of_row ::
  "(string \<Rightarrow> int option) \<Rightarrow> (string \<Rightarrow> pyfloat option) \<Rightarrow> csv_row \<Rightarrow> (int \<times> student) option" where
  "student_of_row int_of float_of row =
     (case convert int_of row ''student_id'' of
        None \<Rightarrow> None
      | Some sid \<Rightarrow>
          (case map_of row ''full_name'' of
             None \<Rightarrow> None
           | Some nm \<Rightarrow>
               (case convert int_of row ''year'' of
                  None \<Rightarrow> None
                | Some yr \<Rightarrow>
                    (case convert float_of row ''gpa'' of
                       None \<Rightarrow> None
                     | Some g \<Rightarrow> Some (sid, \<lparr>name = nm, year = yr, gpa = g\<rparr>)))))"

fun load_rows ::
  "(string \<Rightarrow> int option) \<Rightarrow> (string \<Rightarrow> pyfloat option) \<Rightarrow> csv_row list \<Rightarrow>
   (int \<times> student) list \<Rightarrow> (int \<times> student) list" where
  "load_rows int_of float_of [] studs = studs"
| "load_rows int_of float_of (row # rows) studs =
     (case student_of_row int_of float_of row of
        None \<Rightarrow> load_rows int_of float_of rows studs
      | Some (sid, d) \<Rightarrow> load_rows int_of float_of rows (AList.update sid d studs))"

fun load_students ::
  "(string \<Rightarrow> int option) \<Rightarrow> (string \<Rightarrow> pyfloat option) \<Rightarrow> csv_file \<Rightarrow>
   (int \<times> student) list \<Rightarrow> exn + (int \<times> student) list" where
  "load_students int_of float_of NoCsv studs = Inr studs"
| "load_students int_of float_of (Csv rows) studs = Inr (load_rows int_of float_of rows studs)"
| "load_students int_of float_of (CsvBroken rows x) studs = Inl x"

section \<open>Properties of the data model\<close>

text \<open>The enrollment rows of one course, and of one (student, course) pair.\<close>

definition rows_of_course :: "string \<Rightarrow> enrollment list \<Rightarrow> enrollment list" where
  "rows_of_course code es = filter (\<lambda>e. course_code e = code) es"

definition rows_of_pair :: "int \<Rightarrow> string \<Rightarrow> enrollment list \<Rightarrow> enrollment list" where
  "rows_of_pair sid code es = filter (\<lambda>e. student_id e = sid \<and> course_code e = code) es"

text \<open>
  The data model's invariants: course codes are unique (a dict), there is at most one
  enrollment row per (student, course) pair, and every course's \<^verbatim>\<open>enrolled\<close> is the
  set of the student ids that have an enrollment row for it.
\<close>

definition consistent :: "state \<Rightarrow> bool" where
  "consistent s \<longleftrightarrow>
     distinct (map fst (courses s)) \<and>
     distinct (map (\<lambda>e. (student_id e, course_code e)) (enrollments s)) \<and>
     (\<forall>(code, c) \<in> set (courses s).
        enrolled c = ESet (fset_of_list (map student_id (rows_of_course code (enrollments s)))))"

text \<open>What \<^verbatim>\<open>record_grade\<close> does to a row: only a row of the pair changes.\<close>

definition set_grade :: "int \<Rightarrow> string \<Rightarrow> real \<Rightarrow> enrollment \<Rightarrow> enrollment" where
  "set_grade sid code g e =
     (if student_id e = sid \<and> course_code e = code then e\<lparr>grade := Some g\<rparr> else e)"

text \<open>
  The transcript as the specification words it: the rows of the student, each with its
  course's title, and the arithmetic mean of the grades that are recorded, left out when
  there is none.
\<close>

definition rows_of_student :: "int \<Rightarrow> enrollment list \<Rightarrow> enrollment list" where
  "rows_of_student sid es = filter (\<lambda>e. student_id e = sid) es"

definition graded_values :: "enrollment list \<Rightarrow> real list" where
  "graded_values es = List.map_filter grade es"

definition mean_of :: "real list \<Rightarrow> real option" where
  "mean_of gs = (if gs = [] then None else Some (sum_list gs / real (length gs)))"

definition line_of :: "(string \<times> course) list \<Rightarrow> enrollment \<Rightarrow> transcript_line" where
  "line_of cs e = (course_code e, title (the (map_of cs (course_code e))), grade e)"

text \<open>The fill rate as the specification words it: enrolled count over capacity, times 100.\<close>

definition fill_percent :: "course \<Rightarrow> real" where
  "fill_percent c = real (len_enrolled (enrolled c)) / real_of_int (capacity c) * 100"

section \<open>Example states\<close>

definition demo_state :: state where
  "demo_state =
     \<lparr>students = [(1, \<lparr>name = Some ''Ada'', year = 1, gpa = Num 3.9\<rparr>),
                  (2, \<lparr>name = Some ''Bob'', year = 2, gpa = Num 3.5\<rparr>)],
      courses = [(''CS1'', \<lparr>title = ''Intro'', credits = 3, capacity = 1, prereqs = [],
                            enrolled = ESet {||}\<rparr>),
                 (''CS2'', \<lparr>title = ''Data'', credits = 4, capacity = 5, prereqs = [''CS1''],
                            enrolled = ESet {||}\<rparr>)],
      enrollments = []\<rparr>"

definition demo_state2 :: state where
  "demo_state2 =
     \<lparr>students = [(1, \<lparr>name = Some ''Ada'', year = 1, gpa = Num 3.9\<rparr>),
                  (2, \<lparr>name = Some ''Bob'', year = 2, gpa = Num 3.5\<rparr>)],
      courses = [(''CS1'', \<lparr>title = ''Intro'', credits = 3, capacity = 1, prereqs = [],
                            enrolled = ESet {|1|}\<rparr>),
                 (''CS2'', \<lparr>title = ''Data'', credits = 4, capacity = 5, prereqs = [''CS1''],
                            enrolled = ESet {|1|}\<rparr>)],
      enrollments = [\<lparr>student_id = 1, course_code = ''CS1'', grade = None\<rparr>,
                     \<lparr>student_id = 1, course_code = ''CS2'', grade = None\<rparr>]\<rparr>"

definition graded_state :: state where
  "graded_state =
     \<lparr>students = [(1, \<lparr>name = Some ''Ada'', year = 1, gpa = Num 3.9\<rparr>)],
      courses = [(''CS1'', \<lparr>title = ''Intro'', credits = 3, capacity = 10, prereqs = [],
                            enrolled = ESet {|1|}\<rparr>),
                 (''CS2'', \<lparr>title = ''Data'', credits = 4, capacity = 10, prereqs = [],
                            enrolled = ESet {|1|}\<rparr>),
                 (''CS3'', \<lparr>title = ''Logic'', credits = 4, capacity = 10, prereqs = [],
                            enrolled = ESet {|1|}\<rparr>)],
      enrollments = [\<lparr>student_id = 1, course_code = ''CS1'', grade = Some 90\<rparr>,
                     \<lparr>student_id = 1, course_code = ''CS2'', grade = Some 80\<rparr>,
                     \<lparr>student_id = 1, course_code = ''CS3'', grade = None\<rparr>]\<rparr>"

definition orphan_state :: state where
  "orphan_state =
     \<lparr>students = [(1, \<lparr>name = Some ''Ada'', year = 1, gpa = Num 3.9\<rparr>)],
      courses = [(''CS1'', \<lparr>title = ''Intro'', credits = 3, capacity = 10, prereqs = [],
                            enrolled = ESet {|1|}\<rparr>)],
      enrollments = [\<lparr>student_id = 1, course_code = ''CS1'', grade = Some 90\<rparr>,
                     \<lparr>student_id = 1, course_code = ''CS9'', grade = None\<rparr>]\<rparr>"

definition nine_of_ten :: course where
  "nine_of_ten =
     \<lparr>title = ''Intro'', credits = 3, capacity = 10, prereqs = [],
      enrolled = ESet {|1, 2, 3, 4, 5, 6, 7, 8, 9|}\<rparr>"

definition no_seats :: course where
  "no_seats = \<lparr>title = ''Closed'', credits = 1, capacity = 0, prereqs = [], enrolled = ESet {||}\<rparr>"



definition one_course :: "(string \<times> course) list" where
  "one_course =
     [(''CS1'', \<lparr>title = ''Intro'', credits = 3, capacity = 5, prereqs = [],
                  enrolled = ESet {|1|}\<rparr>)]"

text \<open>\<open>one_course\<close> as \<^verbatim>\<open>list(set)\<close> encodes it, for an iteration order \<open>order\<close>.\<close>

definition one_course_listed :: "(int fset \<Rightarrow> int list) \<Rightarrow> (string \<times> course) list" where
  "one_course_listed order =
     [(''CS1'', \<lparr>title = ''Intro'', credits = 3, capacity = 5, prereqs = [],
                  enrolled = EList (order {|1|})\<rparr>)]"

definition reloaded_state :: state where
  "reloaded_state =
     \<lparr>students = [(1, \<lparr>name = Some ''Ada'', year = 1, gpa = Num 3.9\<rparr>),
                  (2, \<lparr>name = Some ''Bob'', year = 2, gpa = Num 3.5\<rparr>)],
      courses = [(''CS1'', \<lparr>title = ''Intro'', credits = 3, capacity = 5, prereqs = [],
                            enrolled = EList [1]\<rparr>)],
      enrollments = [\<lparr>student_id = 1, course_code = ''CS1'', grade = None\<rparr>]\<rparr>"

text \<open>A courses file that is valid JSON, whose second member is not an object.\<close>

definition partial_file :: json_file where
  "partial_file =
     Json (PDict [(''CS1'', PDict [(''title'', PStr ''Intro''), (''capacity'', PInt 5)]),
                  (''CS2'', PInt 5)])"

text \<open>
  A students file of four rows, the second with a student id that is not a number, and
  the conversions \<^verbatim>\<open>int\<close> and \<^verbatim>\<open>float\<close> on the texts this file holds.
\<close>

definition int_text :: "string \<Rightarrow> int option" where
  "int_text = map_of [(''1'', 1), (''2'', 2), (''3'', 3)]"

definition float_text :: "string \<Rightarrow> pyfloat option" where
  "float_text = map_of [(''3.9'', Num 3.9), (''3.5'', Num 3.5)]"

definition row_ada :: csv_row where
  "row_ada = [(''student_id'', Some ''1''), (''full_name'', Some ''Ada''),
              (''year'', Some ''1''), (''gpa'', Some ''3.9'')]"

definition row_bad :: csv_row where
  "row_bad = [(''student_id'', Some ''x7''), (''full_name'', Some ''Eve''),
              (''year'', Some ''1''), (''gpa'', Some ''3.9'')]"

definition row_bob :: csv_row where
  "row_bob = [(''student_id'', Some ''2''), (''full_name'', Some ''Bob''),
              (''year'', Some ''2''), (''gpa'', Some ''3.5'')]"

definition row_cy :: csv_row where
  "row_cy = [(''student_id'', Some ''3''), (''full_name'', Some ''Cy''),
             (''year'', Some ''1''), (''gpa'', Some ''3.5'')]"

section \<open>Enrollment keeps the enrolled sets in step with the rows\<close>

lemma set_update_distinct:
  "distinct (map fst al) \<Longrightarrow>
   set (AList.update k v al) = insert (k, v) {p \<in> set al. fst p \<noteq> k}"
  by (induction al) (auto simp: rev_image_eqI)

lemma distinct_rows_of_course:
  "distinct (map (\<lambda>e. (student_id e, course_code e)) es) \<Longrightarrow>
   distinct (map student_id (rows_of_course code es))"
  unfolding rows_of_course_def
  by (induction es) (auto simp: rev_image_eqI)

lemma fcard_fset_of_list_distinct: "distinct xs \<Longrightarrow> fcard (fset_of_list xs) = length xs"
  by (simp add: fcard.rep_eq fset_of_list.rep_eq distinct_card)

lemma consistent_len:
  assumes "consistent s" and "(code, c) \<in> set (courses s)"
  shows "len_enrolled (enrolled c) = length (rows_of_course code (enrollments s))"
proof -
  from assms have e:
    "enrolled c = ESet (fset_of_list (map student_id (rows_of_course code (enrollments s))))"
    unfolding consistent_def by blast
  from assms(1) have "distinct (map student_id (rows_of_course code (enrollments s)))"
    unfolding consistent_def by (blast intro: distinct_rows_of_course)
  then have "fcard (fset_of_list (map student_id (rows_of_course code (enrollments s)))) =
      length (map student_id (rows_of_course code (enrollments s)))"
    by (rule fcard_fset_of_list_distinct)
  then show ?thesis by (simp only: e len_enrolled.simps length_map)
qed

text \<open>
  In a consistent state \<^verbatim>\<open>enroll_student\<close> raises nothing, and it leaves a consistent
  state, whether it rejects or enrolls.
\<close>

lemma enroll_student_consistent:
  assumes "consistent s"
  shows "\<exists>m s'. enroll_student sid code s = Inr (m, s') \<and> consistent s'"
proof (cases "sid \<notin> fst ` set (students s) \<or> code \<notin> fst ` set (courses s)")
  case True
  then show ?thesis using assms by (simp add: enroll_student_def)
next
  case False
  then obtain c where c: "map_of (courses s) code = Some c"
    by (metis domD dom_map_of_conv_image_fst)
  from assms have dk: "distinct (map fst (courses s))" by (simp add: consistent_def)
  from c have cin: "(code, c) \<in> set (courses s)" by (rule map_of_SomeD)
  let ?S = "fset_of_list (map student_id (rows_of_course code (enrollments s)))"
  from assms cin have en: "enrolled c = ESet ?S" unfolding consistent_def by blast
  show ?thesis
  proof (cases "capacity c \<le> int (len_enrolled (enrolled c)) \<or>
      (sid, code) \<in> set (map (\<lambda>e. (student_id e, course_code e)) (enrollments s)) \<or>
      missing_prereq sid (enrollments s) (prereqs c)")
    case True
    then show ?thesis using False c assms by (auto simp: enroll_student_def)
  next
    case ok: False
    let ?es = "enrollments s @ [\<lparr>student_id = sid, course_code = code, grade = None\<rparr>]"
    let ?s' = "s\<lparr>enrollments := ?es,
                  courses := AList.update code (c\<lparr>enrolled := ESet (finsert sid ?S)\<rparr>) (courses s)\<rparr>"
    have r: "enroll_student sid code s = Inr (Done, ?s')"
      using False c ok en by (simp add: enroll_student_def)
    have "consistent ?s'"
      unfolding consistent_def
    proof (intro conjI)
      show "distinct (map fst (courses ?s'))" using dk by (simp add: distinct_update)
      show "distinct (map (\<lambda>e. (student_id e, course_code e)) (enrollments ?s'))"
        using assms ok by (simp add: consistent_def)
      show "\<forall>(code', c') \<in> set (courses ?s').
        enrolled c' = ESet (fset_of_list (map student_id (rows_of_course code' (enrollments ?s'))))"
        using assms dk unfolding consistent_def
        by (auto simp: set_update_distinct rows_of_course_def)
    qed
    with r show ?thesis by blast
  qed
qed

lemma enroll_all_consistent:
  "consistent s \<Longrightarrow> \<exists>s'. enroll_all ops s = Inr s' \<and> consistent s'"
proof (induction ops arbitrary: s)
  case Nil
  then show ?case by simp
next
  case (Cons p ops)
  obtain sid code where p: "p = (sid, code)" by (cases p)
  from Cons.prems obtain m s1 where
    s1: "enroll_student sid code s = Inr (m, s1)" and c1: "consistent s1"
    using enroll_student_consistent by blast
  from Cons.IH [OF c1] show ?case by (simp add: p s1)
qed

text \<open>
  The program starts consistent, and the two add operations keep it so (a new course
  starts with an empty set, so no row may carry its code yet).
\<close>

lemma consistent_initial: "consistent initial_state"
  by (simp add: consistent_def initial_state_def)

lemma add_student_consistent: "consistent s \<Longrightarrow> consistent (snd (add_student sid nm yr g s))"
  by (simp add: add_student_def consistent_def)

lemma add_course_consistent:
  assumes "consistent s" and "rows_of_course code (enrollments s) = []"
  shows "consistent (snd (add_course code ttl cr cap pre s))"
  using assms
  by (auto simp: add_course_def consistent_def distinct_update set_update_distinct)

text \<open>
  Claim C1. From any state that satisfies the data model's invariants, every sequence of
  \<^verbatim>\<open>enroll_student\<close> calls runs to its end without an exception, and in the state it
  reaches every course's \<^verbatim>\<open>enrolled\<close> is a set that has as many elements as there are
  enrollment rows with that course code, and is the set of the student ids of those rows.
\<close>

theorem enrolled_matches_rows:
  assumes "consistent s"
  shows "\<exists>s'. enroll_all ops s = Inr s' \<and>
           (\<forall>(code, c) \<in> set (courses s').
              len_enrolled (enrolled c) = length (rows_of_course code (enrollments s')) \<and>
              enrolled c =
                ESet (fset_of_list (map student_id (rows_of_course code (enrollments s')))))"
proof -
  from assms obtain s' where r: "enroll_all ops s = Inr s'" and c: "consistent s'"
    using enroll_all_consistent by blast
  have "len_enrolled (enrolled c') = length (rows_of_course code (enrollments s'))"
    if "(code, c') \<in> set (courses s')" for code c'
    using c that by (rule consistent_len)
  moreover have "enrolled c' =
      ESet (fset_of_list (map student_id (rows_of_course code (enrollments s'))))"
    if "(code, c') \<in> set (courses s')" for code c'
    using c that unfolding consistent_def by blast
  ultimately show ?thesis using r by blast
qed

lemma demo_run:
  "enroll_all [(1, ''CS1''), (1, ''CS2''), (2, ''CS1''), (1, ''CS1'')] demo_state = Inr demo_state2"
  by (simp add: enroll_student_def demo_state_def demo_state2_def fcard_finsert_if fcard_fempty)

theorem enrolled_matches_rows_witness:
  "consistent demo_state \<and>
   enroll_all [(1, ''CS1''), (1, ''CS2''), (2, ''CS1''), (1, ''CS1'')] demo_state = Inr demo_state2 \<and>
   list_all
     (\<lambda>(code, c).
        len_enrolled (enrolled c) = length (rows_of_course code (enrollments demo_state2)) \<and>
        enrolled c =
          ESet (fset_of_list (map student_id (rows_of_course code (enrollments demo_state2)))))
     (courses demo_state2)"
proof -
  have h: "consistent demo_state"
    by (simp add: consistent_def demo_state_def rows_of_course_def)
  from enrolled_matches_rows [OF h, of "[(1, ''CS1''), (1, ''CS2''), (2, ''CS1''), (1, ''CS1'')]"]
  show ?thesis using h by (simp only: demo_run sum.inject simp_thms ex_simps list_all_iff)
qed

section \<open>The checks of enrollment\<close>

lemma list_all_other_code:
  "list_all (\<lambda>e. course_code e \<noteq> pre) (filter (\<lambda>e. student_id e = sid) es) \<longleftrightarrow>
   rows_of_pair sid pre es = []"
  by (auto simp: rows_of_pair_def list_all_iff filter_empty_conv)

lemma missing_prereq_iff:
  "missing_prereq sid es pres \<longleftrightarrow> (\<exists>pre \<in> set pres. rows_of_pair sid pre es = [])"
  by (induction pres) (simp_all add: list_all_other_code)

lemma pair_in_rows_iff:
  "(sid, code) \<in> set (map (\<lambda>e. (student_id e, course_code e)) es) \<longleftrightarrow>
   rows_of_pair sid code es \<noteq> []"
  by (auto simp: rows_of_pair_def filter_empty_conv)

text \<open>
  Claim C2. \<^verbatim>\<open>enroll_student\<close> makes its four checks in this order, and the first one
  that fails decides the outcome: an unknown student or course is \<open>NotFound\<close>; then a
  course whose \<^verbatim>\<open>enrolled\<close> has at least \<^verbatim>\<open>capacity\<close> elements is \<open>CourseFull\<close>;
  then an existing row for the pair is \<open>AlreadyEnrolled\<close>; then a prerequisite code for
  which the student has no row at all, graded or not, is \<open>MissingPrerequisite\<close>. Every
  rejection returns the state it was given. When all four checks pass (and
  \<^verbatim>\<open>enrolled\<close> is a set, as the data model has it), exactly one row with no grade is
  appended and the student id is added to the course's \<^verbatim>\<open>enrolled\<close> set.
\<close>

theorem enroll_student_checks_in_order:
  "(sid \<notin> fst ` set (students s) \<or> code \<notin> fst ` set (courses s) \<longrightarrow>
      enroll_student sid code s = Inr (NotFound, s)) \<and>
   (sid \<in> fst ` set (students s) \<and> map_of (courses s) code = Some c \<longrightarrow>
      (capacity c \<le> int (len_enrolled (enrolled c)) \<longrightarrow>
         enroll_student sid code s = Inr (CourseFull, s)) \<and>
      (int (len_enrolled (enrolled c)) < capacity c \<and>
       rows_of_pair sid code (enrollments s) \<noteq> [] \<longrightarrow>
         enroll_student sid code s = Inr (AlreadyEnrolled, s)) \<and>
      (int (len_enrolled (enrolled c)) < capacity c \<and>
       rows_of_pair sid code (enrollments s) = [] \<and>
       (\<exists>pre \<in> set (prereqs c). rows_of_pair sid pre (enrollments s) = []) \<longrightarrow>
         enroll_student sid code s = Inr (MissingPrerequisite, s)) \<and>
      (int (len_enrolled (enrolled c)) < capacity c \<and>
       rows_of_pair sid code (enrollments s) = [] \<and>
       (\<forall>pre \<in> set (prereqs c). rows_of_pair sid pre (enrollments s) \<noteq> []) \<and>
       enrolled c = ESet S \<longrightarrow>
         enroll_student sid code s =
           Inr (Done,
                s\<lparr>enrollments :=
                    enrollments s @ [\<lparr>student_id = sid, course_code = code, grade = None\<rparr>],
                  courses :=
                    AList.update code (c\<lparr>enrolled := ESet (finsert sid S)\<rparr>) (courses s)\<rparr>)))"
proof -
  have key: "code \<in> fst ` set (courses s)" if "map_of (courses s) code = Some c"
    using that by (metis domI dom_map_of_conv_image_fst)
  show ?thesis
    unfolding enroll_student_def pair_in_rows_iff missing_prereq_iff
    using key by (cases "map_of (courses s) code = Some c") (auto simp: Let_def)
qed

text \<open>
  When \<^verbatim>\<open>enrolled\<close> is a list, as \<^verbatim>\<open>json.load\<close> leaves it, a call that passes the
  four checks ends in \<^verbatim>\<open>AttributeError\<close>.
\<close>

lemma enroll_student_on_list:
  assumes "sid \<in> fst ` set (students s)" and "map_of (courses s) code = Some c"
    and "int (len_enrolled (enrolled c)) < capacity c"
    and "rows_of_pair sid code (enrollments s) = []"
    and "\<forall>pre \<in> set (prereqs c). rows_of_pair sid pre (enrollments s) \<noteq> []"
    and "enrolled c = EList xs"
  shows "enroll_student sid code s = Inl AttributeError"
proof -
  have "code \<in> fst ` set (courses s)"
    using assms(2) by (metis domI dom_map_of_conv_image_fst)
  then show ?thesis using assms
    unfolding enroll_student_def pair_in_rows_iff missing_prereq_iff
    by (simp add: Let_def)
qed


theorem enroll_student_checks_in_order_witness:
  "enroll_student 9 ''CS1'' demo_state = Inr (NotFound, demo_state) \<and>
   enroll_student 2 ''CS1'' demo_state2 = Inr (CourseFull, demo_state2) \<and>
   enroll_student 1 ''CS2'' demo_state2 = Inr (AlreadyEnrolled, demo_state2) \<and>
   enroll_student 2 ''CS2'' demo_state2 = Inr (MissingPrerequisite, demo_state2) \<and>
   enroll_student 1 ''CS1'' demo_state =
     Inr (Done,
          demo_state\<lparr>enrollments := [\<lparr>student_id = 1, course_code = ''CS1'', grade = None\<rparr>],
            courses :=
              [(''CS1'', \<lparr>title = ''Intro'', credits = 3, capacity = 1, prereqs = [],
                           enrolled = ESet {|1|}\<rparr>),
               (''CS2'', \<lparr>title = ''Data'', credits = 4, capacity = 5, prereqs = [''CS1''],
                           enrolled = ESet {||}\<rparr>)]\<rparr>)"
proof -
  note defs = demo_state_def demo_state2_def rows_of_pair_def fcard_finsert_if fcard_fempty
  have 1: "enroll_student 9 ''CS1'' demo_state = Inr (NotFound, demo_state)"
    using enroll_student_checks_in_order [where sid = 9 and code = "''CS1''" and s = demo_state]
    by (simp add: defs)
  have 2: "enroll_student 2 ''CS1'' demo_state2 = Inr (CourseFull, demo_state2)"
    using enroll_student_checks_in_order [where sid = 2 and code = "''CS1''" and s = demo_state2
        and c = "\<lparr>title = ''Intro'', credits = 3, capacity = 1, prereqs = [],
                  enrolled = ESet {|1|}\<rparr>"]
    by (simp add: defs)
  have 3: "enroll_student 1 ''CS2'' demo_state2 = Inr (AlreadyEnrolled, demo_state2)"
    using enroll_student_checks_in_order [where sid = 1 and code = "''CS2''" and s = demo_state2
        and c = "\<lparr>title = ''Data'', credits = 4, capacity = 5, prereqs = [''CS1''],
                  enrolled = ESet {|1|}\<rparr>"]
    by (simp add: defs)
  have 4: "enroll_student 2 ''CS2'' demo_state2 = Inr (MissingPrerequisite, demo_state2)"
    using enroll_student_checks_in_order [where sid = 2 and code = "''CS2''" and s = demo_state2
        and c = "\<lparr>title = ''Data'', credits = 4, capacity = 5, prereqs = [''CS1''],
                  enrolled = ESet {|1|}\<rparr>"]
    by (simp add: defs)
  have 5: "enroll_student 1 ''CS1'' demo_state =
     Inr (Done,
          demo_state\<lparr>enrollments := [\<lparr>student_id = 1, course_code = ''CS1'', grade = None\<rparr>],
            courses :=
              [(''CS1'', \<lparr>title = ''Intro'', credits = 3, capacity = 1, prereqs = [],
                           enrolled = ESet {|1|}\<rparr>),
               (''CS2'', \<lparr>title = ''Data'', credits = 4, capacity = 5, prereqs = [''CS1''],
                           enrolled = ESet {||}\<rparr>)]\<rparr>)"
    using enroll_student_checks_in_order [where sid = 1 and code = "''CS1''" and s = demo_state
        and c = "\<lparr>title = ''Intro'', credits = 3, capacity = 1, prereqs = [],
                  enrolled = ESet {||}\<rparr>" and S = "{||}"]
    by (simp add: defs)
  from 1 2 3 4 5 show ?thesis by blast
qed

section \<open>Recording a grade\<close>

lemma record_grade_rows_None:
  "record_grade_rows sid code g es = None \<longleftrightarrow> rows_of_pair sid code es = []"
  by (induction es) (simp_all add: rows_of_pair_def)

lemma set_grade_no_rows:
  "rows_of_pair sid code es = [] \<Longrightarrow> map (set_grade sid code g) es = es"
proof (induction es)
  case Nil
  then show ?case by simp
next
  case (Cons x es)
  from Cons.prems have n: "\<not> (student_id x = sid \<and> course_code x = code)"
    and r: "rows_of_pair sid code es = []"
    by (auto simp: rows_of_pair_def split: if_splits)
  from n have "set_grade sid code g x = x" by (auto simp: set_grade_def)
  with Cons.IH [OF r] show ?case by simp
qed

lemma record_grade_rows_unique:
  "rows_of_pair sid code es = [e] \<Longrightarrow>
   record_grade_rows sid code g es = Some (map (set_grade sid code g) es)"
proof (induction es)
  case Nil
  then show ?case by (simp add: rows_of_pair_def)
next
  case (Cons x es)
  show ?case
  proof (cases "student_id x = sid \<and> course_code x = code")
    case True
    with Cons.prems have "rows_of_pair sid code es = []" by (simp add: rows_of_pair_def)
    then have m: "map (set_grade sid code g) es = es" by (rule set_grade_no_rows)
    from True have "set_grade sid code g x = x\<lparr>grade := Some g\<rparr>" by (simp add: set_grade_def)
    with True m show ?thesis by simp
  next
    case False
    with Cons.prems have "rows_of_pair sid code es = [e]" by (simp add: rows_of_pair_def)
    from Cons.IH [OF this] have
      i: "record_grade_rows sid code g es = Some (map (set_grade sid code g) es)" .
    from False have "set_grade sid code g x = x" by (auto simp: set_grade_def)
    with False i show ?thesis by auto
  qed
qed

lemma rows_of_pair_set_grade:
  "rows_of_pair sid code (map (set_grade sid code g) es) =
   map (\<lambda>e. e\<lparr>grade := Some g\<rparr>) (rows_of_pair sid code es)"
  by (induction es) (simp_all add: rows_of_pair_def set_grade_def)


lemma record_grade_rows_keys:
  "record_grade_rows sid code g es = Some es' \<Longrightarrow>
   map (\<lambda>e. (student_id e, course_code e)) es' = map (\<lambda>e. (student_id e, course_code e)) es"
proof (induction es arbitrary: es')
  case Nil
  then show ?case by simp
next
  case (Cons x es)
  show ?case
  proof (cases "student_id x = sid \<and> course_code x = code")
    case True
    with Cons.prems have "es' = x\<lparr>grade := Some g\<rparr> # es" by simp
    then show ?thesis by simp
  next
    case False
    with Cons.prems obtain ys where ys: "record_grade_rows sid code g es = Some ys"
      and es': "es' = x # ys" by auto
    from Cons.IH [OF ys] es' show ?thesis by simp
  qed
qed

lemma record_grade_rows_twice:
  "record_grade_rows sid code g es = Some es' \<Longrightarrow>
   record_grade_rows sid code g2 es' = record_grade_rows sid code g2 es"
proof (induction es arbitrary: es')
  case Nil
  then show ?case by simp
next
  case (Cons x es)
  show ?case
  proof (cases "student_id x = sid \<and> course_code x = code")
    case True
    with Cons.prems have "es' = x\<lparr>grade := Some g\<rparr> # es" by simp
    with True show ?thesis by simp
  next
    case False
    with Cons.prems obtain ys where ys: "record_grade_rows sid code g es = Some ys"
      and es': "es' = x # ys" by auto
    from Cons.IH [OF ys] es' False show ?thesis by auto
  qed
qed

lemma record_grade_twice:
  "record_grade sid code g2 (snd (record_grade sid code g s)) = record_grade sid code g2 s"
proof (cases "record_grade_rows sid code g (enrollments s)")
  case None
  then show ?thesis by (simp add: record_grade_def)
next
  case (Some es')
  then have "rows_of_pair sid code (enrollments s) \<noteq> []"
    using record_grade_rows_None [of sid code g "enrollments s"] by simp
  then obtain es2 where es2: "record_grade_rows sid code g2 (enrollments s) = Some es2"
    using record_grade_rows_None [of sid code g2 "enrollments s"] by auto
  from record_grade_rows_twice [OF Some, of g2] es2
  have "record_grade_rows sid code g2 es' = Some es2" by simp
  with Some es2 show ?thesis by (simp add: record_grade_def)
qed

lemma rows_of_pair_keys:
  "map (\<lambda>e. (student_id e, course_code e)) es' = map (\<lambda>e. (student_id e, course_code e)) es \<Longrightarrow>
   length (rows_of_pair sid code es') = length (rows_of_pair sid code es)"
proof (induction es arbitrary: es')
  case Nil
  then show ?case by simp
next
  case (Cons x es)
  then obtain y ys where e: "es' = y # ys" by (cases es') simp_all
  with Cons.prems have k: "student_id y = student_id x" "course_code y = course_code x"
    and m: "map (\<lambda>e. (student_id e, course_code e)) ys = map (\<lambda>e. (student_id e, course_code e)) es"
    by simp_all
  from Cons.IH [OF m] e k show ?case by (simp add: rows_of_pair_def)
qed


text \<open>
  Claim C5. \<^verbatim>\<open>record_grade\<close> reports \<open>NotFound\<close> and changes nothing when the pair has
  no enrollment row. When the pair has its one row, that row's grade is overwritten and
  every other row is left as it was, so the pair still has exactly one row, and after a
  second call only the later grade remains. In every case a second call gives what it
  would have given alone, the number of rows of the pair is unchanged, and students and
  courses are untouched.
\<close>

theorem record_grade_overwrites:
  "(rows_of_pair sid code (enrollments s) = [] \<longrightarrow> record_grade sid code g s = (NotFound, s)) \<and>
   (rows_of_pair sid code (enrollments s) = [e] \<longrightarrow>
      record_grade sid code g s =
        (Done, s\<lparr>enrollments := map (set_grade sid code g) (enrollments s)\<rparr>) \<and>
      rows_of_pair sid code (enrollments (snd (record_grade sid code g s))) =
        [e\<lparr>grade := Some g\<rparr>] \<and>
      rows_of_pair sid code
        (enrollments (snd (record_grade sid code g2 (snd (record_grade sid code g s))))) =
        [e\<lparr>grade := Some g2\<rparr>]) \<and>
   record_grade sid code g2 (snd (record_grade sid code g s)) = record_grade sid code g2 s \<and>
   length (rows_of_pair sid code (enrollments (snd (record_grade sid code g s)))) =
     length (rows_of_pair sid code (enrollments s)) \<and>
   students (snd (record_grade sid code g s)) = students s \<and>
   courses (snd (record_grade sid code g s)) = courses s"
proof -
  have a: "record_grade sid code g s = (NotFound, s)"
    if "rows_of_pair sid code (enrollments s) = []"
  proof -
    from that have "record_grade_rows sid code g (enrollments s) = None"
      by (simp only: record_grade_rows_None)
    then show ?thesis by (simp add: record_grade_def)
  qed
  have b: "record_grade sid code h s =
      (Done, s\<lparr>enrollments := map (set_grade sid code h) (enrollments s)\<rparr>)"
    if "rows_of_pair sid code (enrollments s) = [e]" for h
    by (simp add: record_grade_def record_grade_rows_unique [OF that])
  have c: "rows_of_pair sid code (enrollments (snd (record_grade sid code h s))) =
      [e\<lparr>grade := Some h\<rparr>]"
    if "rows_of_pair sid code (enrollments s) = [e]" for h
    by (simp add: b [OF that] rows_of_pair_set_grade that)
  have d: "rows_of_pair sid code
      (enrollments (snd (record_grade sid code g2 (snd (record_grade sid code g s))))) =
      [e\<lparr>grade := Some g2\<rparr>]"
    if "rows_of_pair sid code (enrollments s) = [e]"
    using c [OF that, of g2] by (simp only: record_grade_twice)
  have f: "length (rows_of_pair sid code (enrollments (snd (record_grade sid code g s)))) =
     length (rows_of_pair sid code (enrollments s))"
  proof (cases "record_grade_rows sid code g (enrollments s)")
    case None
    then show ?thesis by (simp add: record_grade_def)
  next
    case (Some es')
    from rows_of_pair_keys [OF record_grade_rows_keys [OF Some]] Some
    show ?thesis by (simp add: record_grade_def)
  qed
  have st: "students (snd (record_grade sid code g s)) = students s"
    by (simp add: record_grade_def split: option.splits)
  have co: "courses (snd (record_grade sid code g s)) = courses s"
    by (simp add: record_grade_def split: option.splits)
  from a b c d f st co record_grade_twice show ?thesis by blast
qed

theorem record_grade_overwrites_witness:
  "record_grade 7 ''CS1'' 50 graded_state = (NotFound, graded_state) \<and>
   record_grade 1 ''CS3'' 70 graded_state =
     (Done, graded_state\<lparr>enrollments :=
        [\<lparr>student_id = 1, course_code = ''CS1'', grade = Some 90\<rparr>,
         \<lparr>student_id = 1, course_code = ''CS2'', grade = Some 80\<rparr>,
         \<lparr>student_id = 1, course_code = ''CS3'', grade = Some 70\<rparr>]\<rparr>) \<and>
   rows_of_pair 1 ''CS3''
     (enrollments (snd (record_grade 1 ''CS3'' 75 (snd (record_grade 1 ''CS3'' 70 graded_state))))) =
     [\<lparr>student_id = 1, course_code = ''CS3'', grade = Some 75\<rparr>]"
proof -
  have n: "rows_of_pair 7 ''CS1'' (enrollments graded_state) = []"
    by (simp add: graded_state_def rows_of_pair_def)
  have u: "rows_of_pair 1 ''CS3'' (enrollments graded_state) =
      [\<lparr>student_id = 1, course_code = ''CS3'', grade = None\<rparr>]"
    by (simp add: graded_state_def rows_of_pair_def)
  have m: "map (set_grade 1 ''CS3'' 70) (enrollments graded_state) =
      [\<lparr>student_id = 1, course_code = ''CS1'', grade = Some 90\<rparr>,
       \<lparr>student_id = 1, course_code = ''CS2'', grade = Some 80\<rparr>,
       \<lparr>student_id = 1, course_code = ''CS3'', grade = Some 70\<rparr>]"
    by (simp add: graded_state_def set_grade_def)
  from record_grade_overwrites [where sid = 7 and code = "''CS1''" and s = graded_state
      and g = 50] n
  have 1: "record_grade 7 ''CS1'' 50 graded_state = (NotFound, graded_state)" by blast
  from record_grade_overwrites [where sid = 1 and code = "''CS3''" and s = graded_state
      and g = 70 and ?g2.0 = 75
      and e = "\<lparr>student_id = 1, course_code = ''CS3'', grade = None\<rparr>"] u
  have 2: "record_grade 1 ''CS3'' 70 graded_state =
        (Done, graded_state\<lparr>enrollments := map (set_grade 1 ''CS3'' 70) (enrollments graded_state)\<rparr>)"
    and 3: "rows_of_pair 1 ''CS3''
     (enrollments (snd (record_grade 1 ''CS3'' 75 (snd (record_grade 1 ''CS3'' 70 graded_state))))) =
     [\<lparr>student_id = 1, course_code = ''CS3'', grade = None\<rparr>\<lparr>grade := Some 75\<rparr>]"
    by blast+
  from 1 2 3 show ?thesis by (simp add: m)
qed

section \<open>The transcript\<close>

lemma transcript_loop_ok:
  "(\<forall>e \<in> set (rows_of_student sid es). course_code e \<in> fst ` set cs) \<Longrightarrow>
   transcript_loop cs sid es (ls, tp, tc) =
     Inr (ls @ map (line_of cs) (rows_of_student sid es),
          tp + sum_list (graded_values (rows_of_student sid es)),
          tc + length (graded_values (rows_of_student sid es)))"
proof (induction es arbitrary: ls tp tc)
  case Nil
  then show ?case by (simp add: rows_of_student_def graded_values_def map_filter_simps)
next
  case (Cons e es)
  from Cons.prems have rest: "\<forall>e \<in> set (rows_of_student sid es). course_code e \<in> fst ` set cs"
    by (simp add: rows_of_student_def)
  note IH = Cons.IH [OF rest]
  show ?case
  proof (cases "student_id e = sid")
    case False
    then show ?thesis by (simp add: IH rows_of_student_def)
  next
    case True
    with Cons.prems have "course_code e \<in> fst ` set cs" by (simp add: rows_of_student_def)
    then obtain c where c: "map_of cs (course_code e) = Some c"
      by (metis domD dom_map_of_conv_image_fst)
    show ?thesis
    proof (cases "grade e")
      case None
      with True c show ?thesis
        by (simp add: IH rows_of_student_def graded_values_def map_filter_simps line_of_def)
    next
      case (Some g)
      with True c show ?thesis
        by (simp add: IH rows_of_student_def graded_values_def map_filter_simps line_of_def)
    qed
  qed
qed

lemma transcript_loop_fail:
  "\<exists>e \<in> set (rows_of_student sid es). course_code e \<notin> fst ` set cs \<Longrightarrow>
   transcript_loop cs sid es acc = Inl KeyError"
proof (induction es arbitrary: acc)
  case Nil
  then show ?case by (simp add: rows_of_student_def)
next
  case (Cons e es)
  obtain ls tp tc where acc: "acc = (ls, tp, tc)" by (cases acc)
  show ?case
  proof (cases "student_id e = sid \<and> course_code e \<notin> fst ` set cs")
    case True
    then have "map_of cs (course_code e) = None" by (simp add: map_of_eq_None_iff)
    with True show ?thesis by (simp add: acc)
  next
    case False
    with Cons.prems have "\<exists>e \<in> set (rows_of_student sid es). course_code e \<notin> fst ` set cs"
      by (auto simp: rows_of_student_def split: if_splits)
    then have IH: "transcript_loop cs sid es acc' = Inl KeyError" for acc'
      by (rule Cons.IH)
    show ?thesis
      by (simp add: acc IH split: option.splits)
  qed
qed


text \<open>
  Claim C4. \<^verbatim>\<open>transcript\<close> reports \<open>NotFound\<close> for an unknown student. For a known
  student whose rows all name existing courses it gives the student's rows, in order, and
  the arithmetic mean of exactly the recorded grades: rows without a grade count neither
  in the sum nor in the divisor, and no mean is given when no grade is recorded. With
  grades 90 and 80 and one ungraded row the mean is 85.
\<close>

theorem transcript_mean_of_graded:
  "(sid \<notin> fst ` set (students s) \<longrightarrow> transcript sid s = Inr (NotFound, [], None)) \<and>
   (sid \<in> fst ` set (students s) \<and>
    (\<forall>e \<in> set (rows_of_student sid (enrollments s)). course_code e \<in> fst ` set (courses s)) \<longrightarrow>
      transcript sid s =
        Inr (Done, map (line_of (courses s)) (rows_of_student sid (enrollments s)),
             mean_of (graded_values (rows_of_student sid (enrollments s))))) \<and>
   transcript 1 graded_state =
     Inr (Done, [(''CS1'', ''Intro'', Some 90), (''CS2'', ''Data'', Some 80),
                 (''CS3'', ''Logic'', None)], Some 85)"
proof (intro conjI impI)
  assume "sid \<notin> fst ` set (students s)"
  then show "transcript sid s = Inr (NotFound, [], None)" by (simp add: transcript_def)
next
  assume a: "sid \<in> fst ` set (students s) \<and>
    (\<forall>e \<in> set (rows_of_student sid (enrollments s)). course_code e \<in> fst ` set (courses s))"
  then have "transcript_loop (courses s) sid (enrollments s) ([], 0, 0) =
      Inr ([] @ map (line_of (courses s)) (rows_of_student sid (enrollments s)),
           0 + sum_list (graded_values (rows_of_student sid (enrollments s))),
           0 + length (graded_values (rows_of_student sid (enrollments s))))"
    by (intro transcript_loop_ok) blast
  with a show "transcript sid s =
      Inr (Done, map (line_of (courses s)) (rows_of_student sid (enrollments s)),
           mean_of (graded_values (rows_of_student sid (enrollments s))))"
    by (simp add: transcript_def mean_of_def)
next
  show "transcript 1 graded_state =
     Inr (Done, [(''CS1'', ''Intro'', Some 90), (''CS2'', ''Data'', Some 80),
                 (''CS3'', ''Logic'', None)], Some 85)"
    by (simp add: transcript_def graded_state_def)
qed

theorem transcript_mean_of_graded_witness:
  "transcript 7 graded_state = Inr (NotFound, [], None) \<and>
   transcript 1 graded_state =
     Inr (Done, map (line_of (courses graded_state)) (rows_of_student 1 (enrollments graded_state)),
          mean_of (graded_values (rows_of_student 1 (enrollments graded_state)))) \<and>
   mean_of (graded_values (rows_of_student 1 (enrollments graded_state))) = Some 85"
proof -
  have 1: "7 \<notin> fst ` set (students graded_state)" by (simp add: graded_state_def)
  have 2: "1 \<in> fst ` set (students graded_state) \<and>
    (\<forall>e \<in> set (rows_of_student 1 (enrollments graded_state)).
       course_code e \<in> fst ` set (courses graded_state))"
    by (simp add: graded_state_def rows_of_student_def)
  have 3: "mean_of (graded_values (rows_of_student 1 (enrollments graded_state))) = Some 85"
    by (simp add: graded_state_def rows_of_student_def graded_values_def map_filter_simps
        mean_of_def)
  from transcript_mean_of_graded [of 7 graded_state] 1
  have a: "transcript 7 graded_state = Inr (NotFound, [], None)" by blast
  from transcript_mean_of_graded [of 1 graded_state] 2
  have b: "transcript 1 graded_state =
     Inr (Done, map (line_of (courses graded_state)) (rows_of_student 1 (enrollments graded_state)),
          mean_of (graded_values (rows_of_student 1 (enrollments graded_state))))" by blast
  from a b 3 show ?thesis by blast
qed

text \<open>
  Claim C10. \<^verbatim>\<open>transcript\<close> looks each row's course up with no guard. When every row
  of the student names an existing course it returns a result; when the student exists
  and one of the student's rows names a course that is not in \<^verbatim>\<open>courses\<close>, it ends
  in an unhandled \<^verbatim>\<open>KeyError\<close> and reports nothing. Such a state exists.
\<close>

theorem transcript_unguarded_lookup:
  "((\<forall>e \<in> set (rows_of_student sid (enrollments s)). course_code e \<in> fst ` set (courses s)) \<longrightarrow>
      (\<exists>r. transcript sid s = Inr r)) \<and>
   (sid \<in> fst ` set (students s) \<and>
    (\<exists>e \<in> set (rows_of_student sid (enrollments s)). course_code e \<notin> fst ` set (courses s)) \<longrightarrow>
      transcript sid s = Inl KeyError) \<and>
   transcript 1 orphan_state = Inl KeyError"
proof (intro conjI impI)
  assume a: "\<forall>e \<in> set (rows_of_student sid (enrollments s)). course_code e \<in> fst ` set (courses s)"
  show "\<exists>r. transcript sid s = Inr r"
    by (simp add: transcript_def transcript_loop_ok [OF a])
next
  assume "sid \<in> fst ` set (students s) \<and>
    (\<exists>e \<in> set (rows_of_student sid (enrollments s)). course_code e \<notin> fst ` set (courses s))"
  then show "transcript sid s = Inl KeyError"
    by (simp add: transcript_def transcript_loop_fail)
next
  show "transcript 1 orphan_state = Inl KeyError"
    by (simp add: transcript_def orphan_state_def)
qed

theorem transcript_unguarded_lookup_witness:
  "(\<exists>r. transcript 1 graded_state = Inr r) \<and> transcript 1 orphan_state = Inl KeyError \<and>
   \<lparr>student_id = 1, course_code = ''CS9'', grade = None\<rparr> \<in> set (enrollments orphan_state) \<and>
   ''CS9'' \<notin> fst ` set (courses orphan_state)"
proof -
  have 1: "\<forall>e \<in> set (rows_of_student 1 (enrollments graded_state)).
       course_code e \<in> fst ` set (courses graded_state)"
    by (simp add: graded_state_def rows_of_student_def)
  have 2: "1 \<in> fst ` set (students orphan_state) \<and>
    (\<exists>e \<in> set (rows_of_student 1 (enrollments orphan_state)).
       course_code e \<notin> fst ` set (courses orphan_state))"
    by (simp add: orphan_state_def rows_of_student_def)
  have 3: "\<lparr>student_id = 1, course_code = ''CS9'', grade = None\<rparr> \<in> set (enrollments orphan_state) \<and>
   ''CS9'' \<notin> fst ` set (courses orphan_state)"
    by (simp add: orphan_state_def)
  from transcript_unguarded_lookup [of 1 graded_state] 1
  have a: "\<exists>r. transcript 1 graded_state = Inr r" by blast
  from transcript_unguarded_lookup [of 1 orphan_state] 2
  have b: "transcript 1 orphan_state = Inl KeyError" by blast
  from a b 3 show ?thesis by blast
qed

section \<open>Analytics\<close>

lemma fill_rates_ok:
  "(\<forall>(code, c) \<in> set cs. capacity c \<noteq> 0) \<Longrightarrow>
   fill_rates cs = Inr (map (\<lambda>(code, c). (code, fill_percent c, 90 < fill_percent c)) cs)"
  by (induction cs) (auto simp: fill_rate_def fill_percent_def Let_def)

lemma fill_rates_fail:
  "(\<exists>(code, c) \<in> set cs. capacity c = 0) \<Longrightarrow> fill_rates cs = Inl ZeroDivisionError"
proof (induction cs)
  case Nil
  then show ?case by simp
next
  case (Cons p cs)
  obtain code c where p: "p = (code, c)" by (cases p)
  show ?case
  proof (cases "capacity c = 0")
    case True
    then show ?thesis by (simp add: p fill_rate_def)
  next
    case False
    with Cons.prems p have "\<exists>(code, c) \<in> set cs. capacity c = 0" by auto
    from Cons.IH [OF this] False show ?thesis by (simp add: p fill_rate_def Let_def)
  qed
qed

text \<open>
  Claim C7. For a course with a positive capacity the fill rate is the number of enrolled
  students over the capacity, times 100, and the warning is printed exactly when that
  value is strictly above 90: 9 of 10 gives 90 and no warning. For a course with
  capacity 0 the division raises \<^verbatim>\<open>ZeroDivisionError\<close>, and so does the whole listing
  when any course has capacity 0; with no such course the listing has one entry per
  course.
\<close>

theorem fill_rate_boundary:
  "(0 < capacity c \<longrightarrow> fill_rate c = Inr (fill_percent c, 90 < fill_percent c)) \<and>
   (capacity c = 0 \<longrightarrow> fill_rate c = Inl ZeroDivisionError) \<and>
   ((\<forall>(code, c) \<in> set cs. capacity c \<noteq> 0) \<longrightarrow>
      fill_rates cs = Inr (map (\<lambda>(code, c). (code, fill_percent c, 90 < fill_percent c)) cs)) \<and>
   ((\<exists>(code, c) \<in> set cs. capacity c = 0) \<longrightarrow> fill_rates cs = Inl ZeroDivisionError) \<and>
   fill_rate nine_of_ten = Inr (90, False)"
proof (intro conjI impI)
  assume "0 < capacity c"
  then show "fill_rate c = Inr (fill_percent c, 90 < fill_percent c)"
    by (simp add: fill_rate_def fill_percent_def Let_def)
next
  assume "capacity c = 0"
  then show "fill_rate c = Inl ZeroDivisionError" by (simp add: fill_rate_def)
next
  assume "\<forall>(code, c) \<in> set cs. capacity c \<noteq> 0"
  then show "fill_rates cs =
      Inr (map (\<lambda>(code, c). (code, fill_percent c, 90 < fill_percent c)) cs)"
    by (rule fill_rates_ok)
next
  assume "\<exists>(code, c) \<in> set cs. capacity c = 0"
  then show "fill_rates cs = Inl ZeroDivisionError" by (rule fill_rates_fail)
next
  show "fill_rate nine_of_ten = Inr (90, False)"
    by (simp add: fill_rate_def nine_of_ten_def fcard_finsert_if fcard_fempty)
qed

theorem fill_rate_boundary_witness:
  "fill_rate nine_of_ten = Inr (fill_percent nine_of_ten, 90 < fill_percent nine_of_ten) \<and>
   fill_percent nine_of_ten = 90 \<and>
   fill_rate no_seats = Inl ZeroDivisionError \<and>
   fill_rates [(''CS1'', nine_of_ten)] = Inr [(''CS1'', 90, False)] \<and>
   fill_rates [(''CS1'', nine_of_ten), (''CS0'', no_seats)] = Inl ZeroDivisionError"
proof -
  have p: "fill_percent nine_of_ten = 90"
    by (simp add: fill_percent_def nine_of_ten_def fcard_finsert_if fcard_fempty)
  have 1: "0 < capacity nine_of_ten" by (simp add: nine_of_ten_def)
  have 2: "capacity no_seats = 0" by (simp add: no_seats_def)
  have 3: "\<forall>(code, c) \<in> set [(''CS1'', nine_of_ten)]. capacity c \<noteq> 0"
    by (simp add: nine_of_ten_def)
  have 4: "\<exists>(code, c) \<in> set [(''CS1'', nine_of_ten), (''CS0'', no_seats)]. capacity c = 0"
    by (simp add: no_seats_def)
  from fill_rate_boundary [of nine_of_ten "[(''CS1'', nine_of_ten)]"] 1 3
  have a: "fill_rate nine_of_ten = Inr (fill_percent nine_of_ten, 90 < fill_percent nine_of_ten)"
    and b: "fill_rates [(''CS1'', nine_of_ten)] =
      Inr (map (\<lambda>(code, c). (code, fill_percent c, 90 < fill_percent c)) [(''CS1'', nine_of_ten)])"
    by blast+
  from fill_rate_boundary [of no_seats "[(''CS1'', nine_of_ten), (''CS0'', no_seats)]"] 2 4
  have c: "fill_rate no_seats = Inl ZeroDivisionError"
    and d: "fill_rates [(''CS1'', nine_of_ten), (''CS0'', no_seats)] = Inl ZeroDivisionError"
    by blast+
  from a b c d p show ?thesis by simp
qed

section \<open>Saving and loading the courses\<close>

lemma as_list_is_list: "\<exists>xs. as_list order e = EList xs"
  by (cases e) simp_all

lemma as_set_as_list:
  "(\<And>S. fset_of_list (order S) = S) \<Longrightarrow> as_set (as_list order e) = ESet (members e)"
  by (cases e) simp_all

lemma serialisable_encode_course:
  "enrolled c = EList xs \<Longrightarrow> serialisable (encode_course c)"
  by (simp add: encode_course_def)

lemma serialisable_listed:
  "serialisable
     (encode_courses (map (\<lambda>(code, c). (code, c\<lparr>enrolled := as_list order (enrolled c)\<rparr>)) cs))"
proof -
  have "serialisable (encode_course (c\<lparr>enrolled := as_list order (enrolled c)\<rparr>))" for c
  proof -
    obtain xs where "as_list order (enrolled c) = EList xs"
      using as_list_is_list by blast
    then show ?thesis by (simp add: serialisable_encode_course)
  qed
  then show ?thesis
    by (auto simp: encode_courses_def)
qed

lemma save_courses_result:
  "save_courses order cs =
     Inr (encode_courses (map (\<lambda>(code, c). (code, c\<lparr>enrolled := as_list order (enrolled c)\<rparr>)) cs),
          map (\<lambda>(code, c). (code, c\<lparr>enrolled := as_set (as_list order (enrolled c))\<rparr>)) cs)"
proof -
  have "save_courses order cs =
     Inr (encode_courses (map (\<lambda>(code, c). (code, c\<lparr>enrolled := as_list order (enrolled c)\<rparr>)) cs),
          map (\<lambda>(code, c). (code, c\<lparr>enrolled := as_set (enrolled c)\<rparr>))
            (map (\<lambda>(code, c). (code, c\<lparr>enrolled := as_list order (enrolled c)\<rparr>)) cs))"
    unfolding save_courses_def Let_def json_dump_def
    by (simp only: serialisable_listed if_True sum.case)
  then show ?thesis by (simp add: case_prod_unfold comp_def)
qed

text \<open>
  Claim C9. When \<^verbatim>\<open>list(s)\<close> enumerates exactly the elements of \<open>s\<close>,
  \<^verbatim>\<open>save_courses\<close> returns (the encoding never meets a set), and it leaves every course
  under its code, in the same position, with \<^verbatim>\<open>enrolled\<close> a set of the same members
  and every other field as it was.
\<close>

theorem save_courses_restores_sets:
  assumes "\<And>S. fset_of_list (order S) = S"
  shows "\<exists>doc. save_courses order cs =
           Inr (doc, map (\<lambda>(code, c). (code, c\<lparr>enrolled := ESet (members (enrolled c))\<rparr>)) cs)"
  by (simp add: save_courses_result as_set_as_list [OF assms])

theorem save_courses_restores_sets_witness:
  "(\<forall>S. fset_of_list (sorted_list_of_fset S) = (S :: int fset)) \<and>
   (\<exists>doc. save_courses sorted_list_of_fset one_course = Inr (doc, one_course)) \<and>
   (\<exists>doc. save_courses sorted_list_of_fset (courses reloaded_state) = Inr (doc, one_course))"
proof -
  have law: "fset_of_list (sorted_list_of_fset S) = S" for S :: "int fset" by simp
  from save_courses_restores_sets [of sorted_list_of_fset one_course] law
  have 1: "\<exists>doc. save_courses sorted_list_of_fset one_course = Inr (doc, one_course)"
    by (simp add: one_course_def)
  from save_courses_restores_sets [of sorted_list_of_fset "courses reloaded_state"] law
  have 2: "\<exists>doc. save_courses sorted_list_of_fset (courses reloaded_state) = Inr (doc, one_course)"
    by (simp add: one_course_def reloaded_state_def)
  from 1 2 law show ?thesis by blast
qed

text \<open>
  Loading what was saved: every course dict already has the key \<^verbatim>\<open>"enrolled"\<close>, so
  \<^verbatim>\<open>setdefault\<close> changes nothing and \<^verbatim>\<open>enrolled\<close> stays the list the file holds.
\<close>

lemma setdefault_enrolled_encoded:
  "setdefault_enrolled (map (\<lambda>(code, c). (code, encode_course c)) cs) =
   map (\<lambda>(code, c). (code, encode_course c)) cs"
  by (induction cs) (auto simp: encode_course_def setdefault_def)

lemma load_saved_courses:
  "load_courses (Json (encode_courses cs)) cur = encode_courses cs"
  by (simp add: encode_courses_def setdefault_enrolled_encoded)

lemma load_after_save:
  assumes "save_courses order cs = Inr (doc, cs')"
  shows "load_courses (Json doc) cur =
    encode_courses (map (\<lambda>(code, c). (code, c\<lparr>enrolled := as_list order (enrolled c)\<rparr>)) cs)"
proof -
  from assms have "doc =
      encode_courses (map (\<lambda>(code, c). (code, c\<lparr>enrolled := as_list order (enrolled c)\<rparr>)) cs)"
    unfolding save_courses_result by simp
  then show ?thesis by (simp only: load_saved_courses)
qed

text \<open>
  Claim C3, on the code: after \<^verbatim>\<open>save_courses\<close> and \<^verbatim>\<open>load_courses\<close> the course
  \<open>CS1\<close> holds its enrolled students in a list, whatever order \<^verbatim>\<open>list(s)\<close> gave
  them, and not in a set as before the save; in the state so loaded
  \<^verbatim>\<open>enroll_student\<close> ends in \<^verbatim>\<open>AttributeError\<close>.
\<close>

theorem roundtrip_leaves_enrolled_a_list:
  "save_courses order one_course =
     Inr (encode_courses (one_course_listed order),
          [(''CS1'', \<lparr>title = ''Intro'', credits = 3, capacity = 5, prereqs = [],
                       enrolled = ESet (fset_of_list (order {|1|}))\<rparr>)]) \<and>
   load_courses (Json (encode_courses (one_course_listed order))) (PDict []) =
     encode_courses (one_course_listed order) \<and>
   encode_courses (one_course_listed order) \<noteq> encode_courses one_course \<and>
   enroll_student 2 ''CS1'' reloaded_state = Inl AttributeError"
proof (intro conjI)
  show "save_courses order one_course =
     Inr (encode_courses (one_course_listed order),
          [(''CS1'', \<lparr>title = ''Intro'', credits = 3, capacity = 5, prereqs = [],
                       enrolled = ESet (fset_of_list (order {|1|}))\<rparr>)])"
    by (simp add: save_courses_result one_course_def one_course_listed_def)
  show "load_courses (Json (encode_courses (one_course_listed order))) (PDict []) =
     encode_courses (one_course_listed order)"
    by (rule load_saved_courses)
  show "encode_courses (one_course_listed order) \<noteq> encode_courses one_course"
    by (simp add: encode_courses_def encode_course_def one_course_def one_course_listed_def)
  show "enroll_student 2 ''CS1'' reloaded_state = Inl AttributeError"
    by (simp add: enroll_student_def reloaded_state_def)
qed


theorem roundtrip_leaves_enrolled_a_list_witness:
  "load_courses (Json (encode_courses (one_course_listed sorted_list_of_fset))) (PDict []) =
     encode_courses (one_course_listed sorted_list_of_fset) \<and>
   encode_courses (one_course_listed sorted_list_of_fset) \<noteq> encode_courses one_course \<and>
   enroll_student 2 ''CS1'' reloaded_state = Inl AttributeError"
  using roundtrip_leaves_enrolled_a_list [of sorted_list_of_fset] by blast

section \<open>The top students\<close>









section \<open>Loading: what a failure leaves behind\<close>

text \<open>
  Students: a missing file leaves the mapping as it was; a row fails exactly when its id,
  name, year or GPA cannot be read or converted; a failing row has no effect, wherever
  it stands among the others, and a row that converts is stored under its id. A failure
  of the reader itself is not skipped: it ends the process.
\<close>

lemma load_rows_append:
  "load_rows io fo (rows @ rest) studs = load_rows io fo rest (load_rows io fo rows studs)"
  by (induction rows arbitrary: studs) (simp_all split: option.splits)

lemma student_of_row_None:
  "student_of_row io fo row = None \<longleftrightarrow>
     convert io row ''student_id'' = None \<or> map_of row ''full_name'' = None \<or>
     convert io row ''year'' = None \<or> convert fo row ''gpa'' = None"
  by (simp add: student_of_row_def split: option.splits)

lemma load_students_missing: "load_students io fo NoCsv studs = Inr studs"
  by simp

lemma load_students_skips_failing_row:
  "student_of_row io fo row = None \<Longrightarrow>
   load_students io fo (Csv (before @ row # after)) studs =
   load_students io fo (Csv (before @ after)) studs"
  by (simp add: load_rows_append)

lemma load_students_stores_row:
  "student_of_row io fo row = Some (sid, d) \<Longrightarrow>
   load_students io fo (Csv (before @ [row])) studs =
   Inr (AList.update sid d (load_rows io fo before studs))"
  by (simp add: load_rows_append)

lemma load_students_one_bad_row:
  "load_students int_text float_text (Csv [row_ada, row_bad, row_bob, row_cy]) [] =
     Inr [(1, \<lparr>name = Some ''Ada'', year = 1, gpa = Num 3.9\<rparr>),
          (2, \<lparr>name = Some ''Bob'', year = 2, gpa = Num 3.5\<rparr>),
          (3, \<lparr>name = Some ''Cy'', year = 1, gpa = Num 3.5\<rparr>)]"
  by (simp add: student_of_row_def convert_def row_ada_def row_bad_def row_bob_def row_cy_def
      int_text_def float_text_def)

lemma load_students_reader_fails: "load_students io fo (CsvBroken rows x) studs = Inl x"
  by simp

text \<open>
  Courses: a missing file, or one on which \<^verbatim>\<open>open\<close> or \<^verbatim>\<open>json.load\<close> raises,
  leaves the mapping as it was, and a JSON object is loaded with all its keys.
\<close>

lemma load_courses_abandoned:
  "load_courses NoJson cur = cur" "load_courses BadJson cur = cur"
  by simp_all

lemma setdefault_enrolled_keys: "map fst (setdefault_enrolled kvs) = map fst kvs"
  by (induction kvs rule: setdefault_enrolled.induct) simp_all

text \<open>
  Claim C6, on the code: a courses file that is valid JSON but whose second member is not
  an object makes \<^verbatim>\<open>load_courses\<close> raise inside its \<^verbatim>\<open>try\<close>, and the course mapping
  it leaves is neither empty nor complete: it holds both keys, the first member with
  the \<^verbatim>\<open>enrolled\<close> default and the second as the number it was; on a file that is
  not JSON the same function does leave the mapping empty.
\<close>

theorem load_courses_keeps_partial_mapping:
  "load_courses_raises partial_file \<and>
   load_courses partial_file (PDict []) =
     PDict [(''CS1'', PDict [(''title'', PStr ''Intro''), (''capacity'', PInt 5),
                             (''enrolled'', PSet {||})]),
            (''CS2'', PInt 5)] \<and>
   load_courses partial_file (PDict []) \<noteq> PDict [] \<and>
   load_courses BadJson (PDict []) = PDict []"
  by (simp add: partial_file_def setdefault_def)

end
